theory Spec2Isabelle
  imports Complex_Main "HOL-Library.AList"
begin

section \<open>Values and documents\<close>

text \<open>
  A stored record is a Python \<open>Dict[str, Any]\<close>. The handlers observe its values in four
  ways only: \<open>str(v)\<close> (also through an f-string), the truth value of \<open>v\<close>,
  \<open>hasattr(v, "isoformat")\<close> and \<open>v.isoformat()\<close>. A value is modelled by what these
  observations return.
  \<^item> \<open>VObjectId h\<close> is a BSON ObjectId whose \<open>str()\<close> is the hexadecimal text \<open>h\<close>;
  \<^item> \<open>VDatetime ts\<close> is a \<open>datetime\<close> whose \<open>isoformat()\<close> is \<open>ts\<close>; its \<open>str()\<close>
    is the same text with the separator \<open>T\<close> replaced by a blank;
  \<^item> \<open>VOther text truth\<close> is any other value (a number, a list, a mapping), given by its
    \<open>str()\<close> text and its truth value.
\<close>

datatype pyval =
    VNone
  | VBool bool
  | VStr string
  | VObjectId string
  | VDatetime string
  | VOther string bool

fun py_str :: "pyval \<Rightarrow> string" where
  "py_str VNone = ''None''"
| "py_str (VBool b) = (if b then ''True'' else ''False'')"
| "py_str (VStr s) = s"
| "py_str (VObjectId h) = h"
| "py_str (VDatetime ts) = map (\<lambda>c. if c = CHR ''T'' then CHR '' '' else c) ts"
| "py_str (VOther text truth) = text"

fun truthy :: "pyval \<Rightarrow> bool" where
  "truthy VNone = False"
| "truthy (VBool b) = b"
| "truthy (VStr s) = (s \<noteq> [])"
| "truthy (VObjectId h) = True"
| "truthy (VDatetime ts) = True"
| "truthy (VOther text truth) = truth"

fun has_isoformat :: "pyval \<Rightarrow> bool" where
  "has_isoformat (VDatetime ts) = True"
| "has_isoformat v = False"

fun isoformat :: "pyval \<Rightarrow> pyval" where
  "isoformat (VDatetime ts) = VStr ts"
| "isoformat v = v"

text \<open>
  A dict is an association list in insertion order with distinct keys: \<open>d[k] = v\<close> is
  \<open>AList.update k v d\<close> (in place when the key exists, appended otherwise), \<open>d.pop(k)\<close>
  removes the key (\<open>AList.delete\<close>), \<open>k in d\<close> and \<open>d.get(k)\<close> read \<open>map_of d k\<close>.
\<close>

type_synonym doc = "(string \<times> pyval) list"

definition dict_get :: "doc \<Rightarrow> string \<Rightarrow> pyval \<Rightarrow> pyval" where
  "dict_get d k dflt = (case map_of d k of None \<Rightarrow> dflt | Some v \<Rightarrow> v)"

section \<open>Serialization: \<open>serialize_doc\<close>\<close>

text \<open>
  \<^verbatim>\<open>if "_id" in out: out["id"] = str(out.pop("_id"))\<close>
\<close>

definition rename_id :: "doc \<Rightarrow> doc" where
  "rename_id out =
     (case map_of out ''_id'' of
        None \<Rightarrow> out
      | Some x \<Rightarrow> AList.update ''id'' (VStr (py_str x)) (AList.delete ''_id'' out))"

text \<open>
  \<^verbatim>\<open>for k, v in list(out.items()): if hasattr(v, "isoformat"): out[k] = v.isoformat()\<close>
  The first argument is the snapshot \<open>list(out.items())\<close>, the second the dict being
  updated.
\<close>

fun isoformat_items :: "(string \<times> pyval) list \<Rightarrow> doc \<Rightarrow> doc" where
  "isoformat_items [] out = out"
| "isoformat_items ((k, v) # items) out =
     isoformat_items items (if has_isoformat v then AList.update k (isoformat v) out else out)"

definition serialize_doc :: "doc \<Rightarrow> doc" where
  "serialize_doc d = (let out = rename_id d in isoformat_items out out)"

section \<open>Schemas: \<open>Gesture\<close> and \<open>VoiceCommand\<close>\<close>

text \<open>
  A request body is a parsed JSON object. Numbers are real numbers; the bounds
  \<open>ge=0.0, le=1.0\<close> of the source compare them.
\<close>

datatype json =
    JNull
  | JBool bool
  | JNum real
  | JStr string
  | JArr "json list"
  | JObj "(string \<times> json) list"

type_synonym body = "(string \<times> json) list"

record Gesture =
  name :: string
  intent :: string
  app :: "string option"
  sensitivity :: "real option"
  metadata :: "(string \<times> json) list option"

record VoiceCommand =
  phrase :: string
  v_intent :: string
  language :: "string option"
  v_app :: "string option"
  v_context :: "(string \<times> json) list option"

datatype error_kind = Missing | WrongType | NotGe | NotLe

type_synonym field_error = "string \<times> error_kind"

text \<open>
  Modelled from the spec: the type check of a field, which the validation library
  performs and the sources only declare (\<open>str\<close>, \<open>Optional[str]\<close>, \<open>Optional[float]\<close>,
  \<open>Optional[Dict[str, Any]]\<close>). A value of the wrong primitive type is rejected; an
  \<open>Optional\<close> field accepts \<open>null\<close>; a missing field takes its declared default, and a
  missing required field (\<open>Field(...)\<close>) is an error. The bounds and the defaults are
  those of the declarations in the source.
\<close>

definition required_str :: "body \<Rightarrow> string \<Rightarrow> error_kind + string" where
  "required_str b k =
     (case map_of b k of
        None \<Rightarrow> Inl Missing
      | Some (JStr s) \<Rightarrow> Inr s
      | Some _ \<Rightarrow> Inl WrongType)"

definition optional_str :: "string option \<Rightarrow> body \<Rightarrow> string \<Rightarrow> error_kind + string option" where
  "optional_str dflt b k =
     (case map_of b k of
        None \<Rightarrow> Inr dflt
      | Some JNull \<Rightarrow> Inr None
      | Some (JStr s) \<Rightarrow> Inr (Some s)
      | Some _ \<Rightarrow> Inl WrongType)"

definition optional_float ::
  "real option \<Rightarrow> real \<Rightarrow> real \<Rightarrow> body \<Rightarrow> string \<Rightarrow> error_kind + real option" where
  "optional_float dflt ge le b k =
     (case map_of b k of
        None \<Rightarrow> Inr dflt
      | Some JNull \<Rightarrow> Inr None
      | Some (JNum x) \<Rightarrow>
          if \<not> ge \<le> x then Inl NotGe
          else if \<not> x \<le> le then Inl NotLe
          else Inr (Some x)
      | Some _ \<Rightarrow> Inl WrongType)"

definition optional_dict ::
  "body \<Rightarrow> string \<Rightarrow> error_kind + (string \<times> json) list option" where
  "optional_dict b k =
     (case map_of b k of
        None \<Rightarrow> Inr (Some [])
      | Some JNull \<Rightarrow> Inr None
      | Some (JObj kvs) \<Rightarrow> Inr (Some kvs)
      | Some _ \<Rightarrow> Inl WrongType)"

definition field_errors :: "string \<Rightarrow> error_kind + 'a \<Rightarrow> field_error list" where
  "field_errors k r = (case r of Inl e \<Rightarrow> [(k, e)] | Inr _ \<Rightarrow> [])"

text \<open>
  \<^verbatim>\<open>
  name: str = Field(...)
  intent: str = Field(...)
  app: Optional[str] = Field(None)
  sensitivity: Optional[float] = Field(0.7, ge=0.0, le=1.0)
  metadata: Optional[Dict[str, Any]] = Field(default_factory=dict)
  \<close>
  The result is the normalized record, or the errors of every field that failed.
\<close>

definition validate_gesture :: "body \<Rightarrow> field_error list + Gesture" where
  "validate_gesture b =
     (let n = required_str b ''name'';
          i = required_str b ''intent'';
          a = optional_str None b ''app'';
          s = optional_float (Some (7 / 10)) 0 1 b ''sensitivity'';
          m = optional_dict b ''metadata''
      in case (n, i, a, s, m) of
           (Inr n', Inr i', Inr a', Inr s', Inr m') \<Rightarrow>
             Inr \<lparr>name = n', intent = i', app = a', sensitivity = s', metadata = m'\<rparr>
         | _ \<Rightarrow>
             Inl (field_errors ''name'' n @ field_errors ''intent'' i @ field_errors ''app'' a
                  @ field_errors ''sensitivity'' s @ field_errors ''metadata'' m))"

text \<open>
  \<^verbatim>\<open>
  phrase: str = Field(...)
  intent: str = Field(...)
  language: Optional[str] = Field("en")
  app: Optional[str] = Field(None)
  context: Optional[Dict[str, Any]] = Field(default_factory=dict)
  \<close>
\<close>

definition validate_voice :: "body \<Rightarrow> field_error list + VoiceCommand" where
  "validate_voice b =
     (let p = required_str b ''phrase'';
          i = required_str b ''intent'';
          l = optional_str (Some ''en'') b ''language'';
          a = optional_str None b ''app'';
          c = optional_dict b ''context''
      in case (p, i, l, a, c) of
           (Inr p', Inr i', Inr l', Inr a', Inr c') \<Rightarrow>
             Inr \<lparr>phrase = p', v_intent = i', language = l', v_app = a', v_context = c'\<rparr>
         | _ \<Rightarrow>
             Inl (field_errors ''phrase'' p @ field_errors ''intent'' i
                  @ field_errors ''language'' l @ field_errors ''app'' a
                  @ field_errors ''context'' c))"

section \<open>The document store adapter\<close>

text \<open>
  Modelled from the spec: the Document Store Adapter (module \<open>database\<close>, which the
  handlers import and the sources do not contain), with the two operations
  \<open>create_document(collection, record)\<close> and \<open>get_documents(collection, limit)\<close>. Either
  returns its result or raises; an exception is modelled by its message \<open>str(e)\<close>. The
  state of the store is the history of the calls made to it, and the answer to a call
  may depend on that history in any way.
\<close>

datatype model = MGesture Gesture | MVoiceCommand VoiceCommand

datatype call = CreateDocument string model | GetDocuments string "int option"

record adapter =
  create_document :: "call list \<Rightarrow> string \<Rightarrow> model \<Rightarrow> string + string"
  get_documents :: "call list \<Rightarrow> string \<Rightarrow> int option \<Rightarrow> string + doc list"

section \<open>Request handlers\<close>

record suggestion =
  title :: string
  category :: pyval

datatype response =
    Created string
  | Documents "doc list"
  | Suggestions "suggestion list"
  | ValidationFailure "field_error list"
  | HTTPException nat string

text \<open>
  \<open>Created inserted_id\<close> is the body \<open>{"id": inserted_id, "ok": True}\<close>;
  \<open>ValidationFailure\<close> is the client error the framework answers when the body does not
  validate against the handler's parameter type, before the handler runs;
  \<open>HTTPException status_code detail\<close> is the exception the handlers raise.
\<close>

definition create_gesture :: "adapter \<Rightarrow> Gesture \<Rightarrow> call list \<Rightarrow> response \<times> call list" where
  "create_gesture db gesture calls =
     (case create_document db calls ''gesture'' (MGesture gesture) of
        Inr inserted_id \<Rightarrow> Created inserted_id
      | Inl e \<Rightarrow> HTTPException 500 e,
      calls @ [CreateDocument ''gesture'' (MGesture gesture)])"

definition post_gestures :: "adapter \<Rightarrow> body \<Rightarrow> call list \<Rightarrow> response \<times> call list" where
  "post_gestures db b calls =
     (case validate_gesture b of
        Inl errs \<Rightarrow> (ValidationFailure errs, calls)
      | Inr gesture \<Rightarrow> create_gesture db gesture calls)"

definition create_voice :: "adapter \<Rightarrow> VoiceCommand \<Rightarrow> call list \<Rightarrow> response \<times> call list" where
  "create_voice db cmd calls =
     (case create_document db calls ''voicecommand'' (MVoiceCommand cmd) of
        Inr inserted_id \<Rightarrow> Created inserted_id
      | Inl e \<Rightarrow> HTTPException 500 e,
      calls @ [CreateDocument ''voicecommand'' (MVoiceCommand cmd)])"

definition post_voices :: "adapter \<Rightarrow> body \<Rightarrow> call list \<Rightarrow> response \<times> call list" where
  "post_voices db b calls =
     (case validate_voice b of
        Inl errs \<Rightarrow> (ValidationFailure errs, calls)
      | Inr cmd \<Rightarrow> create_voice db cmd calls)"

definition list_gestures :: "adapter \<Rightarrow> int option \<Rightarrow> call list \<Rightarrow> response \<times> call list" where
  "list_gestures db limit calls =
     (case get_documents db calls ''gesture'' limit of
        Inr docs \<Rightarrow> Documents (map serialize_doc docs)
      | Inl e \<Rightarrow> HTTPException 500 e,
      calls @ [GetDocuments ''gesture'' limit])"

definition list_voices :: "adapter \<Rightarrow> int option \<Rightarrow> call list \<Rightarrow> response \<times> call list" where
  "list_voices db limit calls =
     (case get_documents db calls ''voicecommand'' limit of
        Inr docs \<Rightarrow> Documents (map serialize_doc docs)
      | Inl e \<Rightarrow> HTTPException 500 e,
      calls @ [GetDocuments ''voicecommand'' limit])"

subsection \<open>Suggestions\<close>

text \<open>
  The two reads share one \<open>try\<close>: when either raises, both lists are set to \<open>[]\<close>.
\<close>

definition fetch_recent :: "adapter \<Rightarrow> call list \<Rightarrow> (doc list \<times> doc list) \<times> call list" where
  "fetch_recent db calls =
     (let calls1 = calls @ [GetDocuments ''gesture'' (Some 3)];
          calls2 = calls1 @ [GetDocuments ''voicecommand'' (Some 3)]
      in case get_documents db calls ''gesture'' (Some 3) of
           Inl e \<Rightarrow> (([], []), calls1)
         | Inr recent_gestures \<Rightarrow>
             (case get_documents db calls1 ''voicecommand'' (Some 3) of
                Inl e \<Rightarrow> (([], []), calls2)
              | Inr recent_voices \<Rightarrow> ((recent_gestures, recent_voices), calls2)))"

definition base :: "suggestion list" where
  \<open>base =
     [\<lparr>title = ''Wave to silence notifications'', category = VStr ''Focus''\<rparr>,
      \<lparr>title = ''Pinch to zoom in any app'', category = VStr ''Navigation''\<rparr>,
      \<lparr>title = ''Say "open notes" to start typing'', category = VStr ''Voice''\<rparr>]\<close>

text \<open>\<open>x or dflt\<close>: the value itself when it is true, the default otherwise.\<close>

definition py_or :: "pyval \<Rightarrow> pyval \<Rightarrow> pyval" where
  "py_or x dflt = (if truthy x then x else dflt)"

text \<open>
  \<^verbatim>\<open>
  {"title": f"Use '{g.get('name', 'gesture')}' to trigger {g.get('intent', 'an action')}",
   "category": g.get('app') or "Custom"}
  \<close>
  \<open>CHR 0x27\<close> is the apostrophe.
\<close>

definition gesture_suggestion :: "doc \<Rightarrow> suggestion" where
  "gesture_suggestion g =
     \<lparr>title = ''Use '' @ [CHR 0x27] @ py_str (dict_get g ''name'' (VStr ''gesture''))
                @ [CHR 0x27] @ '' to trigger ''
                @ py_str (dict_get g ''intent'' (VStr ''an action'')),
      category = py_or (dict_get g ''app'' VNone) (VStr ''Custom'')\<rparr>"

text \<open>
  \<^verbatim>\<open>
  {"title": f"Say '{v.get('phrase', 'command')}' to {v.get('intent', 'do something')}",
   "category": v.get('app') or "Custom"}
  \<close>
\<close>

definition voice_suggestion :: "doc \<Rightarrow> suggestion" where
  "voice_suggestion v =
     \<lparr>title = ''Say '' @ [CHR 0x27] @ py_str (dict_get v ''phrase'' (VStr ''command''))
                @ [CHR 0x27] @ '' to ''
                @ py_str (dict_get v ''intent'' (VStr ''do something'')),
      category = py_or (dict_get v ''app'' VNone) (VStr ''Custom'')\<rparr>"

text \<open>The two \<open>for\<close> loops, each appending to \<open>dynamic\<close>.\<close>

fun append_gestures :: "doc list \<Rightarrow> suggestion list \<Rightarrow> suggestion list" where
  "append_gestures [] dynamic = dynamic"
| "append_gestures (g # gs) dynamic = append_gestures gs (dynamic @ [gesture_suggestion g])"

fun append_voices :: "doc list \<Rightarrow> suggestion list \<Rightarrow> suggestion list" where
  "append_voices [] dynamic = dynamic"
| "append_voices (v # vs) dynamic = append_voices vs (dynamic @ [voice_suggestion v])"

definition dynamic_list :: "doc list \<Rightarrow> doc list \<Rightarrow> suggestion list" where
  "dynamic_list recent_gestures recent_voices =
     append_voices recent_voices (append_gestures recent_gestures [])"

text \<open>\<^verbatim>\<open>return {"suggestions": (dynamic or base)[:6]}\<close>\<close>

definition suggestions :: "adapter \<Rightarrow> call list \<Rightarrow> response \<times> call list" where
  "suggestions db calls =
     (case fetch_recent db calls of
        ((recent_gestures, recent_voices), calls') \<Rightarrow>
          (let dynamic = dynamic_list recent_gestures recent_voices
           in (Suggestions (take 6 (if dynamic \<noteq> [] then dynamic else base)), calls')))"

subsection \<open>The suggestion texts as the specification words them\<close>

text \<open>
  The specification writes the gesture title as
  \<open>Use '{g.name or "gesture"}' to trigger {g.intent or "an action"}\<close>: the default
  replaces a value that is absent or false. This second definition follows those words,
  to be compared with \<open>gesture_suggestion\<close>.
\<close>

definition spec_gesture_title :: "doc \<Rightarrow> string" where
  "spec_gesture_title g =
     ''Use '' @ [CHR 0x27] @ py_str (py_or (dict_get g ''name'' VNone) (VStr ''gesture''))
       @ [CHR 0x27] @ '' to trigger ''
       @ py_str (py_or (dict_get g ''intent'' VNone) (VStr ''an action''))"

section \<open>Example stores\<close>

text \<open>
  Four adapters on which the handlers are run: a store that accepts every write and holds
  no records, a store that cannot be reached, a store whose voice-command collection
  cannot be read, and a store that holds four gestures and four voice commands and
  honours the limit of a read.
\<close>

definition empty_store :: adapter where
  "empty_store =
     \<lparr>create_document = (\<lambda>calls collection r. Inr ''65f0c0ffee65f0c0ffee65f0''),
      get_documents = (\<lambda>calls collection limit. Inr [])\<rparr>"

definition down_store :: adapter where
  "down_store =
     \<lparr>create_document = (\<lambda>calls collection r. Inl ''store unreachable''),
      get_documents = (\<lambda>calls collection limit. Inl ''store unreachable'')\<rparr>"

definition voice_down_store :: adapter where
  "voice_down_store =
     \<lparr>create_document = (\<lambda>calls collection r. Inl ''store unreachable''),
      get_documents = (\<lambda>calls collection limit.
         if collection = ''gesture''
         then Inr [[(''name'', VStr ''Wave''), (''intent'', VStr ''mute''), (''app'', VNone)]]
         else Inl ''store unreachable'')\<rparr>"

definition stored_gestures :: "doc list" where
  "stored_gestures =
     [[(''name'', VStr ''Wave''), (''intent'', VStr ''mute''), (''app'', VNone)],
      [(''name'', VStr ''Pinch''), (''intent'', VStr ''zoom''), (''app'', VStr ''Maps'')],
      [(''name'', VStr ''Swipe''), (''intent'', VStr ''next_slide''), (''app'', VStr '''')],
      [(''name'', VStr ''Fist''), (''intent'', VStr ''pause''), (''app'', VNone)]]"

definition stored_voices :: "doc list" where
  "stored_voices =
     [[(''phrase'', VStr ''open notes''), (''intent'', VStr ''open_notes''), (''app'', VNone)],
      [(''phrase'', VStr ''lights off''), (''intent'', VStr ''lights_off''),
       (''app'', VStr ''Home'')],
      [(''phrase'', VStr ''play''), (''intent'', VStr ''resume''), (''app'', VNone)],
      [(''phrase'', VStr ''stop''), (''intent'', VStr ''pause''), (''app'', VNone)]]"

definition limited :: "int option \<Rightarrow> doc list \<Rightarrow> doc list" where
  "limited limit docs = (case limit of None \<Rightarrow> docs | Some n \<Rightarrow> take (nat n) docs)"

definition full_store :: adapter where
  "full_store =
     \<lparr>create_document = (\<lambda>calls collection r. Inr ''65f0c0ffee65f0c0ffee65f0''),
      get_documents = (\<lambda>calls collection limit.
         if collection = ''gesture'' then Inr (limited limit stored_gestures)
         else if collection = ''voicecommand'' then Inr (limited limit stored_voices)
         else Inr [])\<rparr>"

section \<open>Properties of serialization\<close>

lemma isoformat_plain: "\<not> has_isoformat v \<Longrightarrow> isoformat v = v"
  by (cases v) simp_all

lemma isoformat_items_plain:
  "\<forall>kv \<in> set items. \<not> has_isoformat (snd kv) \<Longrightarrow> isoformat_items items out = out"
  by (induction items arbitrary: out) auto

lemma map_of_isoformat_items:
  "distinct (map fst items) \<Longrightarrow>
   map_of (isoformat_items items out) k =
     (case map_of items k of
        None \<Rightarrow> map_of out k
      | Some v \<Rightarrow> if has_isoformat v then Some (isoformat v) else map_of out k)"
proof (induction items arbitrary: out)
  case Nil
  show ?case by simp
next
  case (Cons kv items)
  obtain k' v' where kv: "kv = (k', v')" by (cases kv)
  from Cons.prems kv have d: "distinct (map fst items)" and nk: "k' \<notin> fst ` set items"
    by auto
  from nk have none: "map_of items k' = None"
    by (simp add: map_of_eq_None_iff)
  show ?case
  proof (cases "k = k'")
    case True
    with kv none Cons.IH [OF d] show ?thesis
      by (simp add: update_conv' split: option.split)
  next
    case False
    with kv Cons.IH [OF d] show ?thesis
      by (simp add: update_conv' split: option.split)
  qed
qed

lemma distinct_isoformat_items:
  "distinct (map fst out) \<Longrightarrow> distinct (map fst (isoformat_items items out))"
  by (induction items arbitrary: out) (auto simp: distinct_update)

lemma distinct_rename_id:
  "distinct (map fst d) \<Longrightarrow> distinct (map fst (rename_id d))"
  by (simp add: rename_id_def distinct_update distinct_delete split: option.splits)

lemma map_of_rename_id:
  "map_of (rename_id d) k =
     (case map_of d ''_id'' of
        None \<Rightarrow> map_of d k
      | Some x \<Rightarrow> if k = ''id'' then Some (VStr (py_str x))
                  else if k = ''_id'' then None else map_of d k)"
  by (simp add: rename_id_def update_conv' delete_conv' split: option.splits)

lemma map_of_serialize_doc:
  assumes "distinct (map fst d)"
  shows "map_of (serialize_doc d) k = map_option isoformat (map_of (rename_id d) k)"
proof -
  have "distinct (map fst (rename_id d))"
    using assms by (rule distinct_rename_id)
  then show ?thesis
    by (cases "map_of (rename_id d) k"; cases "has_isoformat (the (map_of (rename_id d) k))")
       (simp_all add: serialize_doc_def Let_def map_of_isoformat_items isoformat_plain)
qed

lemma has_isoformat_isoformat: "\<not> has_isoformat (isoformat v)"
  by (cases v) simp_all

lemma serialize_doc_plain:
  assumes "\<forall>kv \<in> set (rename_id d). \<not> has_isoformat (snd kv)"
  shows "serialize_doc d = rename_id d"
  using assms by (simp add: serialize_doc_def Let_def isoformat_items_plain)

lemma set_update_cases:
  "kv \<in> set (AList.update k v al) \<Longrightarrow> kv \<in> set al \<or> kv = (k, v)"
  by (induction al) (auto split: if_splits)

lemma set_delete_cases: "kv \<in> set (AList.delete k al) \<Longrightarrow> kv \<in> set al"
  by (simp add: AList.delete_eq)

lemma set_rename_id:
  "kv \<in> set (rename_id d) \<Longrightarrow> kv \<in> set d \<or> (\<exists>x. kv = (''id'', VStr x))"
proof (cases "map_of d ''_id''")
  case None
  assume "kv \<in> set (rename_id d)"
  with None show ?thesis by (simp add: rename_id_def)
next
  case (Some x)
  assume "kv \<in> set (rename_id d)"
  with Some have "kv \<in> set (AList.update ''id'' (VStr (py_str x)) (AList.delete ''_id'' d))"
    by (simp add: rename_id_def)
  then have "kv \<in> set (AList.delete ''_id'' d) \<or> kv = (''id'', VStr (py_str x))"
    by (rule set_update_cases)
  then show ?thesis
    by (auto dest: set_delete_cases)
qed

lemma rename_id_plain:
  assumes "\<forall>kv \<in> set d. \<not> has_isoformat (snd kv)"
  shows "\<forall>kv \<in> set (rename_id d). \<not> has_isoformat (snd kv)"
proof
  fix kv assume "kv \<in> set (rename_id d)"
  then have "kv \<in> set d \<or> (\<exists>x. kv = (''id'', VStr x))" by (rule set_rename_id)
  with assms show "\<not> has_isoformat (snd kv)" by auto
qed

text \<open>
  C6. A raw record with a native identifier \<open>_id\<close> and no date/time value is serialized
  to the record without the key \<open>_id\<close>, in which \<open>id\<close> holds the text \<open>str(_id)\<close>, and
  every other key keeps its value.
\<close>

theorem serialize_doc_native_identifier:
  assumes "map_of d ''_id'' = Some x"
    and "\<forall>kv \<in> set d. \<not> has_isoformat (snd kv)"
  shows "serialize_doc d = AList.update ''id'' (VStr (py_str x)) (AList.delete ''_id'' d)
       \<and> map_of (serialize_doc d) ''_id'' = None
       \<and> map_of (serialize_doc d) ''id'' = Some (VStr (py_str x))
       \<and> (\<forall>k. k \<noteq> ''_id'' \<and> k \<noteq> ''id'' \<longrightarrow> map_of (serialize_doc d) k = map_of d k)"
proof -
  have eq: "serialize_doc d = rename_id d"
    using assms(2) by (intro serialize_doc_plain rename_id_plain)
  have r: "rename_id d = AList.update ''id'' (VStr (py_str x)) (AList.delete ''_id'' d)"
    using assms(1) by (simp add: rename_id_def)
  show ?thesis
    unfolding eq using assms(1) by (simp add: r [symmetric] map_of_rename_id)
qed

theorem serialize_doc_native_identifier_witness:
  "serialize_doc [(''_id'', VObjectId ''65f0c0ffee65f0c0ffee65f0''), (''name'', VStr ''Wave''),
                  (''sensitivity'', VOther ''0.7'' True)]
     = [(''name'', VStr ''Wave''), (''sensitivity'', VOther ''0.7'' True),
        (''id'', VStr ''65f0c0ffee65f0c0ffee65f0'')]"
  using serialize_doc_native_identifier
    [of "[(''_id'', VObjectId ''65f0c0ffee65f0c0ffee65f0''), (''name'', VStr ''Wave''),
          (''sensitivity'', VOther ''0.7'' True)]" "VObjectId ''65f0c0ffee65f0c0ffee65f0''"]
  by simp

text \<open>
  C7. Serialization is idempotent: a record without the key \<open>_id\<close> and without date/time
  values is returned unchanged, and serializing the result of a serialization again gives
  the same record.
\<close>

theorem serialize_doc_idempotent:
  "(map_of d ''_id'' = None \<and> (\<forall>kv \<in> set d. \<not> has_isoformat (snd kv)) \<longrightarrow> serialize_doc d = d)
   \<and> (distinct (map fst d) \<longrightarrow> serialize_doc (serialize_doc d) = serialize_doc d)"
proof (intro conjI impI)
  assume a: "map_of d ''_id'' = None \<and> (\<forall>kv \<in> set d. \<not> has_isoformat (snd kv))"
  then have "serialize_doc d = rename_id d"
    by (intro serialize_doc_plain rename_id_plain) simp
  with a show "serialize_doc d = d"
    by (simp add: rename_id_def)
next
  assume dist: "distinct (map fst d)"
  let ?s = "serialize_doc d"
  have ds: "distinct (map fst ?s)"
    using dist by (simp add: serialize_doc_def Let_def distinct_isoformat_items distinct_rename_id)
  have no_id: "map_of ?s ''_id'' = None"
    by (simp add: map_of_serialize_doc [OF dist] map_of_rename_id split: option.split)
  have plain: "\<forall>kv \<in> set ?s. \<not> has_isoformat (snd kv)"
  proof
    fix kv assume "kv \<in> set ?s"
    with ds have "map_of ?s (fst kv) = Some (snd kv)"
      by (cases kv) simp
    then have "map_option isoformat (map_of (rename_id d) (fst kv)) = Some (snd kv)"
      by (simp add: map_of_serialize_doc [OF dist])
    then obtain v0 where "isoformat v0 = snd kv"
      by auto
    then show "\<not> has_isoformat (snd kv)"
      using has_isoformat_isoformat [of v0] by simp
  qed
  have "serialize_doc ?s = rename_id ?s"
    using plain by (intro serialize_doc_plain rename_id_plain)
  with no_id show "serialize_doc ?s = ?s"
    by (simp add: rename_id_def)
qed

theorem serialize_doc_idempotent_witness:
  "serialize_doc [(''id'', VStr ''65f0c0ffee65f0c0ffee65f0''), (''name'', VStr ''Wave'')]
     = [(''id'', VStr ''65f0c0ffee65f0c0ffee65f0''), (''name'', VStr ''Wave'')]
   \<and> serialize_doc (serialize_doc
        [(''_id'', VObjectId ''65f0c0ffee65f0c0ffee65f0''),
         (''created_at'', VDatetime ''2024-05-01T10:00:00'')])
     = serialize_doc
        [(''_id'', VObjectId ''65f0c0ffee65f0c0ffee65f0''),
         (''created_at'', VDatetime ''2024-05-01T10:00:00'')]"
  using serialize_doc_idempotent
          [of "[(''id'', VStr ''65f0c0ffee65f0c0ffee65f0''), (''name'', VStr ''Wave'')]"]
        serialize_doc_idempotent
          [of "[(''_id'', VObjectId ''65f0c0ffee65f0c0ffee65f0''),
                (''created_at'', VDatetime ''2024-05-01T10:00:00'')]"]
  by simp

section \<open>Properties of the suggestions\<close>

lemma append_gestures_map: "append_gestures gs dynamic = dynamic @ map gesture_suggestion gs"
  by (induction gs arbitrary: dynamic) simp_all

lemma append_voices_map: "append_voices vs dynamic = dynamic @ map voice_suggestion vs"
  by (induction vs arbitrary: dynamic) simp_all

lemma dynamic_list_map:
  "dynamic_list gs vs = map gesture_suggestion gs @ map voice_suggestion vs"
  by (simp add: dynamic_list_def append_gestures_map append_voices_map)

lemma length_base: "length base = 3"
  by (simp add: base_def)

lemma suggestions_eq:
  "fetch_recent db calls = ((gs, vs), calls') \<Longrightarrow>
   suggestions db calls =
     (Suggestions (take 6 (if dynamic_list gs vs \<noteq> [] then dynamic_list gs vs else base)),
      calls')"
  by (simp add: suggestions_def Let_def)

lemma fetch_recent_failure:
  assumes "(\<exists>e. get_documents db calls ''gesture'' (Some 3) = Inl e)
         \<or> (\<exists>e. get_documents db (calls @ [GetDocuments ''gesture'' (Some 3)])
                   ''voicecommand'' (Some 3) = Inl e)"
  shows "fst (fetch_recent db calls) = ([], [])"
  using assms by (auto simp: fetch_recent_def Let_def split: sum.splits)

text \<open>
  C3. \<open>GET /suggestions\<close> always answers with a list of suggestions; when the read of
  the gestures or the read of the voice commands raises, both fetched lists are empty and
  the answer is the fallback list of three entries.
\<close>

theorem suggestions_never_fails:
  "(\<exists>items. fst (suggestions db calls) = Suggestions items)
   \<and> ((\<exists>e. get_documents db calls ''gesture'' (Some 3) = Inl e)
        \<or> (\<exists>e. get_documents db (calls @ [GetDocuments ''gesture'' (Some 3)])
                  ''voicecommand'' (Some 3) = Inl e)
      \<longrightarrow> fst (fetch_recent db calls) = ([], [])
          \<and> fst (suggestions db calls) = Suggestions base
          \<and> length base = 3)"
proof (intro conjI impI)
  obtain gs vs calls' where f: "fetch_recent db calls = ((gs, vs), calls')"
    by (metis surj_pair)
  show "\<exists>items. fst (suggestions db calls) = Suggestions items"
    by (simp add: suggestions_eq [OF f])
next
  assume fails: "(\<exists>e. get_documents db calls ''gesture'' (Some 3) = Inl e)
         \<or> (\<exists>e. get_documents db (calls @ [GetDocuments ''gesture'' (Some 3)])
                   ''voicecommand'' (Some 3) = Inl e)"
  then show e: "fst (fetch_recent db calls) = ([], [])"
    by (rule fetch_recent_failure)
  then obtain calls' where f: "fetch_recent db calls = (([], []), calls')"
    by (cases "fetch_recent db calls") simp
  show "fst (suggestions db calls) = Suggestions base"
    by (simp add: suggestions_eq [OF f] dynamic_list_map length_base)
  show "length base = 3"
    by (rule length_base)
qed

theorem suggestions_never_fails_witness:
  "fst (fetch_recent voice_down_store []) = ([], [])
   \<and> fst (suggestions voice_down_store []) = Suggestions base
   \<and> fst (suggestions down_store []) = Suggestions base"
  using suggestions_never_fails [of voice_down_store "[]"]
        suggestions_never_fails [of down_store "[]"]
  by (simp add: voice_down_store_def down_store_def)

text \<open>
  C4. The answer of \<open>GET /suggestions\<close> has at most six entries: the first six of the
  dynamic list when that list is not empty, the three fallback entries when it is empty;
  the entries of one answer all come from the dynamic list or all from the fallback.
\<close>

theorem suggestions_at_most_six:
  assumes "fetch_recent db calls = ((gs, vs), calls')"
  shows "\<exists>items. fst (suggestions db calls) = Suggestions items
           \<and> length items \<le> 6
           \<and> (dynamic_list gs vs \<noteq> [] \<longrightarrow> items = take 6 (dynamic_list gs vs))
           \<and> (dynamic_list gs vs = [] \<longrightarrow> items = base)
           \<and> length base = 3
           \<and> (set items \<subseteq> set (dynamic_list gs vs) \<or> items = base)"
proof -
  let ?items = "take 6 (if dynamic_list gs vs \<noteq> [] then dynamic_list gs vs else base)"
  have s: "fst (suggestions db calls) = Suggestions ?items"
    by (simp add: suggestions_eq [OF assms])
  have "set (take 6 (dynamic_list gs vs)) \<subseteq> set (dynamic_list gs vs)"
    by (rule set_take_subset)
  then have "length ?items \<le> 6
           \<and> (dynamic_list gs vs \<noteq> [] \<longrightarrow> ?items = take 6 (dynamic_list gs vs))
           \<and> (dynamic_list gs vs = [] \<longrightarrow> ?items = base)
           \<and> length base = 3
           \<and> (set ?items \<subseteq> set (dynamic_list gs vs) \<or> ?items = base)"
    by (simp add: length_base)
  with s show ?thesis by blast
qed

theorem suggestions_at_most_six_witness:
  "fst (suggestions full_store []) =
     Suggestions (map gesture_suggestion (take 3 stored_gestures)
                  @ map voice_suggestion (take 3 stored_voices))
   \<and> fst (suggestions empty_store []) = Suggestions base"
proof -
  have f: "fetch_recent full_store [] =
             ((take 3 stored_gestures, take 3 stored_voices),
              [GetDocuments ''gesture'' (Some 3), GetDocuments ''voicecommand'' (Some 3)])"
    by (simp add: fetch_recent_def full_store_def limited_def Let_def)
  have e: "fetch_recent empty_store [] =
             (([], []),
              [GetDocuments ''gesture'' (Some 3), GetDocuments ''voicecommand'' (Some 3)])"
    by (simp add: fetch_recent_def empty_store_def Let_def)
  have n: "dynamic_list (take 3 stored_gestures) (take 3 stored_voices) \<noteq> []"
    by (simp add: dynamic_list_map stored_gestures_def)
  have l: "length (dynamic_list (take 3 stored_gestures) (take 3 stored_voices)) = 6"
    by (simp add: dynamic_list_map stored_gestures_def stored_voices_def)
  have d: "dynamic_list [] [] = []"
    by (simp add: dynamic_list_map)
  show ?thesis
    using suggestions_at_most_six [OF f] suggestions_at_most_six [OF e] n l d
    by (auto simp: dynamic_list_map)
qed

text \<open>
  C10. In the dynamic list every suggestion made from a gesture comes before every
  suggestion made from a voice command, and each group keeps the order of the fetched
  records.
\<close>

theorem dynamic_list_order:
  "dynamic_list gs vs = map gesture_suggestion gs @ map voice_suggestion vs"
  by (simp add: dynamic_list_def append_gestures_map append_voices_map)

text \<open>
  C5, amended. The title of a gesture suggestion carries the text of the record's
  \<open>name\<close> and \<open>intent\<close> values whenever the record has these keys, also when the value
  is empty; the defaults \<open>gesture\<close> and \<open>an action\<close> stand in only for an absent key.
  The category is the \<open>app\<close> value when it is present and true (neither null nor
  empty), and \<open>Custom\<close> otherwise. Voice commands likewise, with \<open>phrase\<close>,
  \<open>command\<close> and \<open>do something\<close>.
\<close>

theorem suggestion_title_and_category:
  "title (gesture_suggestion g) =
     ''Use '' @ [CHR 0x27]
       @ (case map_of g ''name'' of None \<Rightarrow> ''gesture'' | Some x \<Rightarrow> py_str x)
       @ [CHR 0x27] @ '' to trigger ''
       @ (case map_of g ''intent'' of None \<Rightarrow> ''an action'' | Some x \<Rightarrow> py_str x)
   \<and> category (gesture_suggestion g) =
       (case map_of g ''app'' of
          None \<Rightarrow> VStr ''Custom''
        | Some a \<Rightarrow> if truthy a then a else VStr ''Custom'')
   \<and> title (voice_suggestion v) =
       ''Say '' @ [CHR 0x27]
         @ (case map_of v ''phrase'' of None \<Rightarrow> ''command'' | Some x \<Rightarrow> py_str x)
         @ [CHR 0x27] @ '' to ''
         @ (case map_of v ''intent'' of None \<Rightarrow> ''do something'' | Some x \<Rightarrow> py_str x)
   \<and> category (voice_suggestion v) =
       (case map_of v ''app'' of
          None \<Rightarrow> VStr ''Custom''
        | Some a \<Rightarrow> if truthy a then a else VStr ''Custom'')"
  by (simp add: gesture_suggestion_def voice_suggestion_def dict_get_def py_or_def
           split: option.split)

text \<open>
  C5, counterexample. A stored gesture whose name is the empty text: the source prints
  the empty name, the specification's wording prints the default.
\<close>

theorem suggestion_title_counterexample:
  "title (gesture_suggestion [(''name'', VStr ''''), (''intent'', VStr ''mute'')])
     = ''Use '' @ [CHR 0x27] @ [CHR 0x27] @ '' to trigger mute''
   \<and> spec_gesture_title [(''name'', VStr ''''), (''intent'', VStr ''mute'')]
     = ''Use 'gesture' to trigger mute''
   \<and> title (gesture_suggestion [(''name'', VStr ''''), (''intent'', VStr ''mute'')])
     \<noteq> spec_gesture_title [(''name'', VStr ''''), (''intent'', VStr ''mute'')]"
  by (simp add: gesture_suggestion_def spec_gesture_title_def dict_get_def py_or_def)

section \<open>Properties of validation and creation\<close>

lemma validate_gesture_Inr:
  assumes "validate_gesture b = Inr g"
  shows "required_str b ''name'' = Inr (name g)
       \<and> required_str b ''intent'' = Inr (intent g)
       \<and> optional_str None b ''app'' = Inr (app g)
       \<and> optional_float (Some (7 / 10)) 0 1 b ''sensitivity'' = Inr (sensitivity g)
       \<and> optional_dict b ''metadata'' = Inr (metadata g)"
  using assms
  by (cases "required_str b ''name''"; cases "required_str b ''intent''";
      cases "optional_str None b ''app''";
      cases "optional_float (Some (7 / 10)) 0 1 b ''sensitivity''";
      cases "optional_dict b ''metadata''")
     (auto simp: validate_gesture_def Let_def)

lemma validate_gesture_Inl:
  assumes "validate_gesture b = Inl errs"
  shows "errs = field_errors ''name'' (required_str b ''name'')
              @ field_errors ''intent'' (required_str b ''intent'')
              @ field_errors ''app'' (optional_str None b ''app'')
              @ field_errors ''sensitivity''
                  (optional_float (Some (7 / 10)) 0 1 b ''sensitivity'')
              @ field_errors ''metadata'' (optional_dict b ''metadata'')"
  using assms
  by (cases "required_str b ''name''"; cases "required_str b ''intent''";
      cases "optional_str None b ''app''";
      cases "optional_float (Some (7 / 10)) 0 1 b ''sensitivity''";
      cases "optional_dict b ''metadata''")
     (auto simp: validate_gesture_def Let_def)

lemma validate_voice_Inr:
  assumes "validate_voice b = Inr c"
  shows "required_str b ''phrase'' = Inr (phrase c)
       \<and> required_str b ''intent'' = Inr (v_intent c)
       \<and> optional_str (Some ''en'') b ''language'' = Inr (language c)
       \<and> optional_str None b ''app'' = Inr (v_app c)
       \<and> optional_dict b ''context'' = Inr (v_context c)"
  using assms
  by (cases "required_str b ''phrase''"; cases "required_str b ''intent''";
      cases "optional_str (Some ''en'') b ''language''";
      cases "optional_str None b ''app''";
      cases "optional_dict b ''context''")
     (auto simp: validate_voice_def Let_def)

lemma required_str_missing: "map_of b k = None \<Longrightarrow> required_str b k = Inl Missing"
  by (simp add: required_str_def)

lemma post_gestures_rejected:
  assumes "\<And>g. validate_gesture b \<noteq> Inr g"
  shows "\<exists>errs. validate_gesture b = Inl errs
               \<and> post_gestures db b calls = (ValidationFailure errs, calls)"
  using assms by (cases "validate_gesture b") (auto simp: post_gestures_def)

lemma post_voices_rejected:
  assumes "\<And>c. validate_voice b \<noteq> Inr c"
  shows "\<exists>errs. validate_voice b = Inl errs
               \<and> post_voices db b calls = (ValidationFailure errs, calls)"
  using assms by (cases "validate_voice b") (auto simp: post_voices_def)

text \<open>
  C1. A Gesture body whose \<open>sensitivity\<close> is a number below 0 or above 1 is rejected
  by validation: no normalized record is produced (the value is not clamped), the answer
  is the validation failure naming the field, and no call reaches the store.
\<close>

theorem sensitivity_out_of_range_rejected:
  assumes "map_of b ''sensitivity'' = Some (JNum x)" and "x < 0 \<or> 1 < x"
  shows "\<exists>errs. validate_gesture b = Inl errs
               \<and> (''sensitivity'', if x < 0 then NotGe else NotLe) \<in> set errs
               \<and> post_gestures db b calls = (ValidationFailure errs, calls)"
proof -
  have s: "optional_float (Some (7 / 10)) 0 1 b ''sensitivity''
             = Inl (if x < 0 then NotGe else NotLe)"
    using assms by (auto simp: optional_float_def)
  have "validate_gesture b \<noteq> Inr g" for g
    using validate_gesture_Inr [of b g] s by auto
  then obtain errs where e: "validate_gesture b = Inl errs"
    and p: "post_gestures db b calls = (ValidationFailure errs, calls)"
    using post_gestures_rejected [of b db calls] by blast
  have "(''sensitivity'', if x < 0 then NotGe else NotLe) \<in> set errs"
    unfolding validate_gesture_Inl [OF e] s by (simp add: field_errors_def)
  with e p show ?thesis by blast
qed

theorem sensitivity_out_of_range_rejected_witness:
  "post_gestures empty_store
     [(''name'', JStr ''Wave''), (''intent'', JStr ''mute''), (''sensitivity'', JNum (3 / 2))] []
     = (ValidationFailure [(''sensitivity'', NotLe)], [])
   \<and> post_gestures empty_store
     [(''name'', JStr ''Wave''), (''intent'', JStr ''mute''), (''sensitivity'', JNum (- 1))] []
     = (ValidationFailure [(''sensitivity'', NotGe)], [])"
proof -
  let ?hi = "[(''name'', JStr ''Wave''), (''intent'', JStr ''mute''),
              (''sensitivity'', JNum (3 / 2))]"
  let ?lo = "[(''name'', JStr ''Wave''), (''intent'', JStr ''mute''),
              (''sensitivity'', JNum (- 1))]"
  have hi: "map_of ?hi ''sensitivity'' = Some (JNum (3 / 2))" by simp
  have lo: "map_of ?lo ''sensitivity'' = Some (JNum (- 1))" by simp
  have "validate_gesture ?hi = Inl [(''sensitivity'', NotLe)]"
    by (simp add: validate_gesture_def required_str_def optional_str_def optional_float_def
          optional_dict_def field_errors_def)
  moreover have "validate_gesture ?lo = Inl [(''sensitivity'', NotGe)]"
    by (simp add: validate_gesture_def required_str_def optional_str_def optional_float_def
          optional_dict_def field_errors_def)
  ultimately show ?thesis
    using sensitivity_out_of_range_rejected [OF hi, of empty_store "[]"]
          sensitivity_out_of_range_rejected [OF lo, of empty_store "[]"]
    by auto
qed

text \<open>
  C2, amended. A Gesture body without \<open>name\<close> or without \<open>intent\<close>, and a VoiceCommand
  body without \<open>phrase\<close> or without \<open>intent\<close>, is rejected by validation with a client
  error and no call reaches the store. A required text field accepts every text, the
  empty one too: the schemas declare no minimum length.
\<close>

theorem missing_required_text_rejected:
  "(map_of b ''name'' = None \<or> map_of b ''intent'' = None
      \<longrightarrow> (\<exists>errs. post_gestures db b calls = (ValidationFailure errs, calls)))
   \<and> (map_of b' ''phrase'' = None \<or> map_of b' ''intent'' = None
      \<longrightarrow> (\<exists>errs. post_voices db b' calls = (ValidationFailure errs, calls)))
   \<and> (map_of b k = Some (JStr s) \<longrightarrow> required_str b k = Inr s)"
proof (intro conjI impI)
  assume m: "map_of b ''name'' = None \<or> map_of b ''intent'' = None"
  have "validate_gesture b \<noteq> Inr g" for g
    using validate_gesture_Inr [of b g] m required_str_missing [of b] by auto
  then show "\<exists>errs. post_gestures db b calls = (ValidationFailure errs, calls)"
    using post_gestures_rejected [of b db calls] by blast
next
  assume m: "map_of b' ''phrase'' = None \<or> map_of b' ''intent'' = None"
  have "validate_voice b' \<noteq> Inr c" for c
    using validate_voice_Inr [of b' c] m required_str_missing [of b'] by auto
  then show "\<exists>errs. post_voices db b' calls = (ValidationFailure errs, calls)"
    using post_voices_rejected [of b' db calls] by blast
next
  assume "map_of b k = Some (JStr s)"
  then show "required_str b k = Inr s"
    by (simp add: required_str_def)
qed

theorem missing_required_text_rejected_witness:
  "(\<exists>errs. post_gestures empty_store [(''intent'', JStr ''mute'')] []
             = (ValidationFailure errs, []))
   \<and> (\<exists>errs. post_voices empty_store [(''phrase'', JStr ''open notes'')] []
             = (ValidationFailure errs, []))
   \<and> required_str [(''intent'', JStr ''mute'')] ''intent'' = Inr ''mute''"
  using missing_required_text_rejected
          [of "[(''intent'', JStr ''mute'')]" empty_store "[]"
              "[(''phrase'', JStr ''open notes'')]" "''intent''" "''mute''"]
  by simp

text \<open>
  C2, counterexample. A Gesture body whose name is the empty text passes validation and
  is written to the store.
\<close>

theorem empty_text_accepted_counterexample:
  "post_gestures empty_store [(''name'', JStr ''''), (''intent'', JStr ''mute'')] []
     = (Created ''65f0c0ffee65f0c0ffee65f0'',
        [CreateDocument ''gesture''
           (MGesture \<lparr>name = '''', intent = ''mute'', app = None,
                       sensitivity = Some (7 / 10), metadata = Some []\<rparr>)])"
  by (simp add: post_gestures_def create_gesture_def validate_gesture_def required_str_def
        optional_str_def optional_float_def optional_dict_def empty_store_def)

text \<open>
  C8. When a Gesture body without \<open>sensitivity\<close> validates, the normalized record has
  sensitivity 0.7, and that record is the one handed to the store.
\<close>

theorem sensitivity_default:
  assumes "validate_gesture b = Inr g" and "map_of b ''sensitivity'' = None"
  shows "sensitivity g = Some 0.7
       \<and> snd (post_gestures db b calls) = calls @ [CreateDocument ''gesture'' (MGesture g)]"
proof -
  have "optional_float (Some (7 / 10)) 0 1 b ''sensitivity'' = Inr (sensitivity g)"
    using validate_gesture_Inr [OF assms(1)] by simp
  with assms(2) have "sensitivity g = Some (7 / 10)"
    by (simp add: optional_float_def)
  with assms(1) show ?thesis
    by (simp add: post_gestures_def create_gesture_def)
qed

theorem sensitivity_default_witness:
  "sensitivity \<lparr>name = ''Wave'', intent = ''mute'', app = None,
                sensitivity = Some (7 / 10), metadata = Some []\<rparr> = Some 0.7
   \<and> snd (post_gestures empty_store [(''name'', JStr ''Wave''), (''intent'', JStr ''mute'')] [])
     = [CreateDocument ''gesture''
          (MGesture \<lparr>name = ''Wave'', intent = ''mute'', app = None,
                      sensitivity = Some (7 / 10), metadata = Some []\<rparr>)]"
proof -
  let ?b = "[(''name'', JStr ''Wave''), (''intent'', JStr ''mute'')]"
  have v: "validate_gesture ?b
             = Inr \<lparr>name = ''Wave'', intent = ''mute'', app = None,
                    sensitivity = Some (7 / 10), metadata = Some []\<rparr>"
    by (simp add: validate_gesture_def required_str_def optional_str_def optional_float_def
          optional_dict_def)
  have m: "map_of ?b ''sensitivity'' = None" by simp
  show ?thesis
    using sensitivity_default [OF v m, of empty_store "[]"] by simp
qed

text \<open>
  C9. For a body that validates, the create handler makes one call to the store,
  \<open>create_document\<close> on the collection \<open>gesture\<close> (\<open>voicecommand\<close> for a voice
  command) with the normalized record. When the call returns an identifier the answer is
  \<open>{id, ok: true}\<close> with that identifier; when it raises, the answer is the server
  error 500 whose detail is the message of the exception, and the call is not repeated.
\<close>

theorem create_calls_store_once:
  "(validate_gesture b = Inr g \<longrightarrow>
      snd (post_gestures db b calls) = calls @ [CreateDocument ''gesture'' (MGesture g)]
    \<and> (\<forall>i. create_document db calls ''gesture'' (MGesture g) = Inr i
           \<longrightarrow> fst (post_gestures db b calls) = Created i)
    \<and> (\<forall>e. create_document db calls ''gesture'' (MGesture g) = Inl e
           \<longrightarrow> fst (post_gestures db b calls) = HTTPException 500 e))
   \<and> (validate_voice b' = Inr c \<longrightarrow>
      snd (post_voices db b' calls)
        = calls @ [CreateDocument ''voicecommand'' (MVoiceCommand c)]
    \<and> (\<forall>i. create_document db calls ''voicecommand'' (MVoiceCommand c) = Inr i
           \<longrightarrow> fst (post_voices db b' calls) = Created i)
    \<and> (\<forall>e. create_document db calls ''voicecommand'' (MVoiceCommand c) = Inl e
           \<longrightarrow> fst (post_voices db b' calls) = HTTPException 500 e))"
  by (simp add: post_gestures_def create_gesture_def post_voices_def create_voice_def)

theorem create_calls_store_once_witness:
  "post_gestures empty_store [(''name'', JStr ''Wave''), (''intent'', JStr ''mute'')] []
     = (Created ''65f0c0ffee65f0c0ffee65f0'',
        [CreateDocument ''gesture''
           (MGesture \<lparr>name = ''Wave'', intent = ''mute'', app = None,
                       sensitivity = Some (7 / 10), metadata = Some []\<rparr>)])
   \<and> post_gestures down_store [(''name'', JStr ''Wave''), (''intent'', JStr ''mute'')] []
     = (HTTPException 500 ''store unreachable'',
        [CreateDocument ''gesture''
           (MGesture \<lparr>name = ''Wave'', intent = ''mute'', app = None,
                       sensitivity = Some (7 / 10), metadata = Some []\<rparr>)])
   \<and> post_voices empty_store
       [(''phrase'', JStr ''open notes''), (''intent'', JStr ''open_notes'')] []
     = (Created ''65f0c0ffee65f0c0ffee65f0'',
        [CreateDocument ''voicecommand''
           (MVoiceCommand \<lparr>phrase = ''open notes'', v_intent = ''open_notes'',
                            language = Some ''en'', v_app = None, v_context = Some []\<rparr>)])
   \<and> post_voices down_store
       [(''phrase'', JStr ''open notes''), (''intent'', JStr ''open_notes'')] []
     = (HTTPException 500 ''store unreachable'',
        [CreateDocument ''voicecommand''
           (MVoiceCommand \<lparr>phrase = ''open notes'', v_intent = ''open_notes'',
                            language = Some ''en'', v_app = None, v_context = Some []\<rparr>)])"
proof -
  let ?bg = "[(''name'', JStr ''Wave''), (''intent'', JStr ''mute'')]"
  let ?g = "\<lparr>name = ''Wave'', intent = ''mute'', app = None,
             sensitivity = Some (7 / 10), metadata = Some []\<rparr>"
  let ?bv = "[(''phrase'', JStr ''open notes''), (''intent'', JStr ''open_notes'')]"
  let ?c = "\<lparr>phrase = ''open notes'', v_intent = ''open_notes'',
             language = Some ''en'', v_app = None, v_context = Some []\<rparr>"
  have g: "validate_gesture ?bg = Inr ?g"
    by (simp add: validate_gesture_def required_str_def optional_str_def optional_float_def
          optional_dict_def)
  have c: "validate_voice ?bv = Inr ?c"
    by (simp add: validate_voice_def required_str_def optional_str_def optional_dict_def)
  have ok: "create_document empty_store [] = (\<lambda>collection r. Inr ''65f0c0ffee65f0c0ffee65f0'')"
    by (simp add: empty_store_def)
  have down: "create_document down_store [] = (\<lambda>collection r. Inl ''store unreachable'')"
    by (simp add: down_store_def)
  show ?thesis
    using create_calls_store_once [of ?bg ?g empty_store "[]" ?bv ?c]
          create_calls_store_once [of ?bg ?g down_store "[]" ?bv ?c]
          g c ok down
    by (simp add: prod_eq_iff)
qed

end
